theory Spec2Isabelle
  imports Main
begin

section \<open>Python values, failures and notebook runs\<close>

text \<open>
  The two notebooks are straight-line Python: every statement either calls a library
  (pandas, the XREPORT package) or prints. An exception raised by a call ends the run.
  A failure is a value: the exceptions that the operations modelled below raise
  themselves, and \<open>LibraryError\<close> for whatever an external collaborator raises.
\<close>

datatype 'e error =
    KeyError string
  | AttributeError
  | ValueError
  | IndexError
  | LibraryError 'e

text \<open>
  A cell of a dataframe column read by \<open>pd.read_csv\<close>: a string, a number, or the
  missing value. A dataframe has named columns and a list of rows; each row associates
  column names with cells.
\<close>

datatype cell = Str string | Num int | NaN

type_synonym row = "(string \<times> cell) list"

record dataframe =
  columns :: "string list"
  rows :: "row list"

text \<open>The keyword arguments of a \<open>pd.read_csv\<close> call.\<close>

record csv_request =
  filepath :: string
  encoding :: string
  sep :: string
  low_memory :: bool

text \<open>The object handed to \<open>print\<close>: a string, or the list of words.\<close>

datatype printed = Text string | WordList "string list"

text \<open>The call sites of the notebooks, with the arguments that are plain data.\<close>

datatype call =
    ReadCsv csv_request
  | FindImagesPath string
  | Sample nat int
  | GetItem string
  | Split
  | NewDataValidation
  | NewInference int
  | LoadPretrainedModel string
  | FolderPath
  | Summary
  | NewModelTraining string int
  | NewDataGenerator int "int list" bool bool
  | NewTensorDataSet
  | CreateTfDataset

text \<open>
  What a run does, in order: it prints, or it calls, and the call either returns or
  raises (\<open>Some e\<close>).
\<close>

datatype 'e event = Print printed | Called call "'e error option"



type_synonym ('e, 'a) run = "'e event list \<times> ('e error + 'a)"

definition ret :: "'a \<Rightarrow> ('e, 'a) run" where
  "ret x = ([], Inr x)"

definition bind :: "('e, 'a) run \<Rightarrow> ('a \<Rightarrow> ('e, 'b) run) \<Rightarrow> ('e, 'b) run" where
  "bind m f =
     (case m of
        (tr, Inl e) \<Rightarrow> (tr, Inl e)
      | (tr, Inr a) \<Rightarrow> (case f a of (tr', r) \<Rightarrow> (tr @ tr', r)))"

definition invoke :: "call \<Rightarrow> 'e error + 'a \<Rightarrow> ('e, 'a) run" where
  "invoke c r = ([Called c (case r of Inl e \<Rightarrow> Some e | Inr _ \<Rightarrow> None)], r)"

definition print :: "printed \<Rightarrow> ('e, unit) run" where
  "print x = ([Print x], Inr ())"

definition console :: "'e event list \<Rightarrow> printed list" where
  "console tr = concat (map (\<lambda>ev. case ev of Print x \<Rightarrow> [x] | Called _ _ \<Rightarrow> []) tr)"

section \<open>Library operations used by the notebooks\<close>

subsection \<open>\<open>os.path.join\<close> (POSIX), for two components\<close>

definition path_join :: "string \<Rightarrow> string \<Rightarrow> string" where
  "path_join a b =
     (if b \<noteq> [] \<and> hd b = CHR ''/'' then b
      else if a = [] \<or> last a = CHR ''/'' then a @ b
      else a @ ''/'' @ b)"

subsection \<open>\<open>str.split()\<close> with no argument\<close>

text \<open>
  Splits at runs of whitespace and drops empty words. Strings are modelled with code
  points below 256; these are the ones \<open>str.isspace\<close> accepts there.
\<close>

definition isspace :: "char \<Rightarrow> bool" where
  "isspace c = (of_char c \<in> {9, 10, 11, 12, 13, 28, 29, 30, 31, 32, 133, 160 :: nat})"

fun split_from :: "string \<Rightarrow> string \<Rightarrow> string list" where
  "split_from w [] = (if w = [] then [] else [w])"
| "split_from w (c # cs) =
     (if isspace c then (if w = [] then split_from [] cs else w # split_from [] cs)
      else split_from (w @ [c]) cs)"

definition split :: "string \<Rightarrow> string list" where
  "split s = split_from [] s"

text \<open>\<open>x.split()\<close> on a cell: only a string has the method.\<close>

fun cell_split :: "cell \<Rightarrow> 'e error + string list" where
  "cell_split (Str s) = Inr (split s)"
| "cell_split (Num _) = Inl AttributeError"
| "cell_split NaN = Inl AttributeError"

text \<open>A list comprehension \<open>[f(x) for x in xs]\<close>: the first exception ends it.\<close>

fun comprehension :: "('a \<Rightarrow> 'e error + 'b) \<Rightarrow> 'a list \<Rightarrow> 'e error + 'b list" where
  "comprehension f [] = Inr []"
| "comprehension f (x # xs) =
     (case f x of
        Inl e \<Rightarrow> Inl e
      | Inr y \<Rightarrow> (case comprehension f xs of Inl e \<Rightarrow> Inl e | Inr ys \<Rightarrow> Inr (y # ys)))"

subsection \<open>pandas: column access, row count, sampling\<close>

definition getitem :: "dataframe \<Rightarrow> string \<Rightarrow> 'e error + cell list" where
  "getitem df c =
     (if c \<in> set (columns df)
      then Inr (map (\<lambda>r. case map_of r c of Some v \<Rightarrow> v | None \<Rightarrow> NaN) (rows df))
      else Inl (KeyError c))"

definition shape0 :: "dataframe \<Rightarrow> nat" where
  "shape0 df = length (rows df)"

definition take_rows :: "dataframe \<Rightarrow> nat list \<Rightarrow> 'e error + dataframe" where
  "take_rows df locs =
     (if \<forall>i \<in> set locs. i < length (rows df)
      then Inr (df\<lparr>rows := map (\<lambda>i. rows df ! i) locs\<rparr>)
      else Inl IndexError)"

text \<open>
  \<open>DataFrame.sample(n, random_state)\<close> without replacement: pandas asks a random
  generator for \<open>n\<close> positions out of the row count and takes the rows at these
  positions. Which generator depends on \<open>random_state\<close>: an integer seeds a generator of
  its own (\<open>np.random.RandomState(seed)\<close>); without one (\<open>None\<close>, the default) pandas draws
  from numpy's global generator, in whatever state earlier code of the process has
  left it. Both are parameters: \<open>choice seed population n\<close> is what a generator fresh
  from \<open>seed\<close> answers, \<open>global_choice population n\<close> what the global generator answers
  when the call is made. Either may raise, as numpy does when asked for more
  positions than there are rows.
\<close>

type_synonym 'e choice = "int \<Rightarrow> nat \<Rightarrow> nat \<Rightarrow> 'e error + nat list"

type_synonym 'e draw = "nat \<Rightarrow> nat \<Rightarrow> 'e error + nat list"

definition df_sample ::
  "'e choice \<Rightarrow> 'e draw \<Rightarrow> dataframe \<Rightarrow> nat \<Rightarrow> int option \<Rightarrow> 'e error + dataframe" where
  "df_sample choice global_choice df n random_state =
     (case (case random_state of
              None \<Rightarrow> global_choice (length (rows df)) n
            | Some seed \<Rightarrow> choice seed (length (rows df)) n) of
        Inl e \<Rightarrow> Inl e
      | Inr locs \<Rightarrow> take_rows df locs)"

subsection \<open>Formatting numbers and tuples in an f-string\<close>

definition digit :: "nat \<Rightarrow> char" where
  "digit d = char_of (48 + d)"

fun str_nat :: "nat \<Rightarrow> string" where
  "str_nat n = (if n < 10 then [digit n] else str_nat (n div 10) @ [digit (n mod 10)])"

declare str_nat.simps [simp del]

definition str_int :: "int \<Rightarrow> string" where
  "str_int i = (if i < 0 then CHR ''-'' # str_nat (nat (- i)) else str_nat (nat i))"

fun join :: "string \<Rightarrow> string list \<Rightarrow> string" where
  "join s [] = []"
| "join s [x] = x"
| "join s (x # y # ys) = x @ s @ join s (y # ys)"

definition str_tuple :: "int list \<Rightarrow> string" where
  "str_tuple t =
     (case t of
        [x] \<Rightarrow> ''('' @ str_int x @ '',)''
      | _ \<Rightarrow> ''('' @ join '', '' (map str_int t) @ '')'')"

text \<open>
  The text of the evaluation summary: the lines of the triple-quoted f-string, which
  begins and ends with a line break, joined by line breaks.
\<close>

abbreviation nl :: char where
  "nl \<equiv> CHR 0x0A"

definition rule_line :: string where
  "rule_line =
     ''-------------------------------------------------------------------------------''"

definition evaluation_report :: "nat \<Rightarrow> nat \<Rightarrow> int \<Rightarrow> int \<Rightarrow> string" where
  "evaluation_report num_train_samples num_test_samples batch_size epochs =
     join [nl]
       [ [],
         rule_line,
         ''XRAYREP evaluation report'',
         rule_line,
         ''Number of train samples: '' @ str_nat num_train_samples,
         ''Number of test samples:  '' @ str_nat num_test_samples,
         rule_line,
         ''Batch size:              '' @ str_int batch_size,
         ''Epochs:                  '' @ str_int epochs,
         rule_line,
         [] ]"

section \<open>Configuration and external collaborators\<close>

text \<open>
  The module \<open>XREPORT.commons.configurations\<close> (\<open>cnf\<close>) and the paths of
  \<open>XREPORT.commons.pathfinder\<close> are constants defined outside the notebooks; they are
  parameters here. The sample counts are counts (natural numbers), the seeds, batch
  size and epoch count Python integers, the image shape a tuple of integers. The
  validation notebook reads \<open>cnf.SEED\<close>, the evaluation notebook \<open>cnf.seed\<close>.
\<close>

record configuration =
  TRAIN_SAMPLES :: nat
  TEST_SAMPLES :: nat
  SEED :: int
  seed :: int
  IMG_SHAPE :: "int list"
  BATCH_SIZE :: int
  EPOCHS :: int
  IMG_AUGMENT :: bool
  ML_DEVICE :: string

record pathfinder =
  DATA_PATH :: string
  IMG_DATA_PATH :: string
  CHECKPOINT_PATH :: string

text \<open>
  Modelled from the spec: the parameters record that \<open>Inference.load_pretrained_model\<close>
  returns next to the model. The class \<open>Inference\<close> is not part of the notebooks; the
  spec speaks of the hyperparameters used at training time and attributes a batch size
  and an epoch count to the record.
\<close>

record parameters =
  batch_size :: int
  epochs :: int

text \<open>
  The collaborators the notebooks call: pandas' reader, numpy's generators, and the
  functions and classes of the XREPORT package. Each is given by what it returns or
  raises; \<open>'o\<close> is an object of a class the notebooks treat as opaque (model, generator,
  dataset, trainer, validator). \<open>load_pretrained_model\<close> also returns the \<open>Inference\<close>
  object as it is after the call, from which \<open>folder_path\<close> is read.
\<close>

record ('e, 'o) env =
  read_csv :: "csv_request \<Rightarrow> 'e error + dataframe"
  find_images_path :: "string \<Rightarrow> dataframe \<Rightarrow> 'e error + dataframe"
  choice :: "'e choice"
  global_choice :: "'e draw"
  DataValidation :: "'e error + 'o"
  Inference :: "int \<Rightarrow> 'e error + 'o"
  load_pretrained_model :: "'o \<Rightarrow> string \<Rightarrow> 'e error + ('o \<times> parameters \<times> 'o)"
  folder_path :: "'o \<Rightarrow> 'e error + string"
  summary :: "'o \<Rightarrow> 'e error + unit"
  ModelTraining :: "string \<Rightarrow> int \<Rightarrow> 'e error + 'o"
  DataGenerator :: "dataframe \<Rightarrow> int \<Rightarrow> int list \<Rightarrow> bool \<Rightarrow> bool \<Rightarrow> 'e error + 'o"
  TensorDataSet :: "'e error + 'o"
  create_tf_dataset :: "'o \<Rightarrow> 'o \<Rightarrow> 'e error + 'o"

definition csv_args :: "string \<Rightarrow> csv_request" where
  "csv_args file_loc =
     \<lparr>filepath = file_loc, encoding = ''utf-8'', sep = '';'', low_memory = False\<rparr>"

section \<open>The validation notebook (\<open>data/data_validation.ipynb\<close>)\<close>

text \<open>Cell "Load data": the first three statements, then the subset selection.\<close>

definition load_dataset :: "('e, 'o) env \<Rightarrow> pathfinder \<Rightarrow> ('e, dataframe) run" where
  "load_dataset ext pf =
     (let file_loc = path_join (DATA_PATH pf) ''XREP_dataset.csv'' in
      bind (invoke (ReadCsv (csv_args file_loc)) (read_csv ext (csv_args file_loc)))
        (\<lambda>dataset.
           invoke (FindImagesPath (IMG_DATA_PATH pf))
             (find_images_path ext (IMG_DATA_PATH pf) dataset)))"

definition select_subset ::
  "('e, 'o) env \<Rightarrow> configuration \<Rightarrow> dataframe \<Rightarrow> ('e, dataframe) run" where
  "select_subset ext cnf dataset =
     (let total_samples = TRAIN_SAMPLES cnf + TEST_SAMPLES cnf in
      invoke (Sample total_samples (SEED cnf))
        (df_sample (choice ext) (global_choice ext) dataset total_samples (Some (SEED cnf))))"

definition load_data ::
  "('e, 'o) env \<Rightarrow> pathfinder \<Rightarrow> configuration \<Rightarrow> ('e, dataframe \<times> dataframe) run" where
  "load_data ext pf cnf =
     bind (load_dataset ext pf)
       (\<lambda>dataset. bind (select_subset ext cnf dataset) (\<lambda>subset_df. ret (dataset, subset_df)))"

text \<open>Cell "Text analysis".\<close>

definition words_of :: "dataframe \<Rightarrow> ('e, string list) run" where
  "words_of dataset =
     bind (invoke (GetItem ''text'') (getitem dataset ''text''))
       (\<lambda>total_text.
          bind (invoke Split (comprehension cell_split total_text))
            (\<lambda>words_list. ret (concat words_list)))"

definition text_analysis :: "dataframe \<Rightarrow> ('e, unit) run" where
  "text_analysis dataset =
     bind (words_of dataset) (\<lambda>words_list. print (WordList words_list))"

text \<open>
  Cell "Pixel intensity histogram": the statements that are not commented out.
\<close>

definition pixel_intensity :: "('e, 'o) env \<Rightarrow> configuration \<Rightarrow> ('e, unit) run" where
  "pixel_intensity ext cnf =
     bind (invoke NewDataValidation (DataValidation ext))
       (\<lambda>validator.
          print (Text ([nl]
            @ ''Loading pictures from train and test dataset. Current picture shape is ''
            @ str_tuple (butlast (IMG_SHAPE cnf)) @ [nl])))"

text \<open>The cells after "Load data", which receive the variables it has bound.\<close>

definition validation_rest ::
  "('e, 'o) env \<Rightarrow> configuration \<Rightarrow> dataframe \<times> dataframe \<Rightarrow> ('e, unit) run" where
  "validation_rest ext cnf vars =
     (case vars of (dataset, subset_df) \<Rightarrow>
        bind (text_analysis dataset) (\<lambda>_. pixel_intensity ext cnf))"

definition validation_notebook ::
  "('e, 'o) env \<Rightarrow> pathfinder \<Rightarrow> configuration \<Rightarrow> ('e, unit) run" where
  "validation_notebook ext pf cnf = bind (load_data ext pf cnf) (validation_rest ext cnf)"

section \<open>The evaluation notebook (\<open>training/model_evaluation.ipynb\<close>)\<close>

text \<open>Cell "Load data and model".\<close>

definition load_model ::
  "('e, 'o) env \<Rightarrow> pathfinder \<Rightarrow> configuration \<Rightarrow> ('e, 'o \<times> parameters \<times> string) run" where
  "load_model ext pf cnf =
     bind (invoke (NewInference (seed cnf)) (Inference ext (seed cnf)))
       (\<lambda>inference.
          bind (invoke (LoadPretrainedModel (CHECKPOINT_PATH pf))
                  (load_pretrained_model ext inference (CHECKPOINT_PATH pf)))
            (\<lambda>(model, parameters, inference).
               bind (invoke FolderPath (folder_path ext inference))
                 (\<lambda>model_path.
                    bind (invoke Summary (summary ext model))
                      (\<lambda>_. ret (model, parameters, model_path)))))"

definition load_csv_files ::
  "('e, 'o) env \<Rightarrow> string \<Rightarrow> ('e, dataframe \<times> dataframe) run" where
  "load_csv_files ext model_path =
     (let preprocessing_path = path_join model_path ''preprocessing'';
          train_loc = path_join preprocessing_path ''XREP_train.csv'';
          test_loc = path_join preprocessing_path ''XREP_test.csv''
      in
      bind (invoke (ReadCsv (csv_args train_loc)) (read_csv ext (csv_args train_loc)))
        (\<lambda>train_data.
           bind (invoke (ReadCsv (csv_args test_loc)) (read_csv ext (csv_args test_loc)))
             (\<lambda>test_data. ret (train_data, test_data))))"

definition load_data_and_model ::
  "('e, 'o) env \<Rightarrow> pathfinder \<Rightarrow> configuration
     \<Rightarrow> ('e, 'o \<times> parameters \<times> dataframe \<times> dataframe) run" where
  "load_data_and_model ext pf cnf =
     bind (load_model ext pf cnf)
       (\<lambda>(model, parameters, model_path).
          bind (load_csv_files ext model_path)
            (\<lambda>(train_data, test_data). ret (model, parameters, train_data, test_data)))"

text \<open>Cell "Create generator and datasets".\<close>

definition create_datasets ::
  "('e, 'o) env \<Rightarrow> configuration \<Rightarrow> dataframe \<Rightarrow> dataframe \<Rightarrow> ('e, 'o \<times> 'o) run" where
  "create_datasets ext cnf train_data test_data =
     bind (invoke (NewModelTraining (ML_DEVICE cnf) (seed cnf))
             (ModelTraining ext (ML_DEVICE cnf) (seed cnf)))
       (\<lambda>trainer.
     bind (invoke (NewDataGenerator (BATCH_SIZE cnf) (IMG_SHAPE cnf) True (IMG_AUGMENT cnf))
             (DataGenerator ext train_data (BATCH_SIZE cnf) (IMG_SHAPE cnf) True
                (IMG_AUGMENT cnf)))
       (\<lambda>train_generator.
     bind (invoke (NewDataGenerator (BATCH_SIZE cnf) (IMG_SHAPE cnf) True (IMG_AUGMENT cnf))
             (DataGenerator ext test_data (BATCH_SIZE cnf) (IMG_SHAPE cnf) True
                (IMG_AUGMENT cnf)))
       (\<lambda>test_generator.
     bind (invoke NewTensorDataSet (TensorDataSet ext))
       (\<lambda>datamaker.
     bind (invoke CreateTfDataset (create_tf_dataset ext datamaker train_generator))
       (\<lambda>train_dataset.
     bind (invoke CreateTfDataset (create_tf_dataset ext datamaker test_generator))
       (\<lambda>test_dataset. ret (train_dataset, test_dataset)))))))"

text \<open>Cell "Model evaluation": the summary report.\<close>

definition evaluation_summary ::
  "configuration \<Rightarrow> dataframe \<Rightarrow> dataframe \<Rightarrow> ('e, unit) run" where
  "evaluation_summary cnf train_data test_data =
     (let num_train_samples = shape0 train_data;
          num_test_samples = shape0 test_data
      in print (Text (evaluation_report num_train_samples num_test_samples
                        (BATCH_SIZE cnf) (EPOCHS cnf))))"

text \<open>The cells after "Load data and model", which receive the variables it has bound.\<close>

definition evaluation_rest ::
  "('e, 'o) env \<Rightarrow> configuration \<Rightarrow> 'o \<times> parameters \<times> dataframe \<times> dataframe
     \<Rightarrow> ('e, unit) run" where
  "evaluation_rest ext cnf vars =
     (case vars of (model, parameters, train_data, test_data) \<Rightarrow>
        bind (create_datasets ext cnf train_data test_data)
          (\<lambda>_. evaluation_summary cnf train_data test_data))"

definition evaluation_notebook ::
  "('e, 'o) env \<Rightarrow> pathfinder \<Rightarrow> configuration \<Rightarrow> ('e, unit) run" where
  "evaluation_notebook ext pf cnf =
     bind (load_data_and_model ext pf cnf) (evaluation_rest ext cnf)"

section \<open>Reading the console\<close>

text \<open>
  What a reader of the console sees in a printed text: its lines, the value printed
  after a label at the start of a line, and the number that value denotes.
\<close>

fun lines_of :: "string \<Rightarrow> string list" where
  "lines_of [] = [[]]"
| "lines_of (c # cs) =
     (if c = nl then [] # lines_of cs
      else (case lines_of cs of [] \<Rightarrow> [[c]] | l # ls \<Rightarrow> (c # l) # ls))"

definition printed_field :: "string \<Rightarrow> string \<Rightarrow> string option" where
  "printed_field label text =
     (case filter (\<lambda>l. take (length label) l = label) (lines_of text) of
        [] \<Rightarrow> None
      | l # _ \<Rightarrow> Some (dropWhile (\<lambda>c. c = CHR '' '') (drop (length label) l)))"

definition isdigit :: "char \<Rightarrow> bool" where
  "isdigit c = (48 \<le> (of_char c :: nat) \<and> (of_char c :: nat) \<le> 57)"

fun read_nat_from :: "nat \<Rightarrow> string \<Rightarrow> nat option" where
  "read_nat_from acc [] = Some acc"
| "read_nat_from acc (c # cs) =
     (if isdigit c then read_nat_from (10 * acc + (of_char c - 48)) cs else None)"

definition read_nat :: "string \<Rightarrow> nat option" where
  "read_nat s = (if s = [] then None else read_nat_from 0 s)"

definition read_int :: "string \<Rightarrow> int option" where
  "read_int s =
     (case s of
        [] \<Rightarrow> None
      | c # cs \<Rightarrow>
          if c = CHR ''-'' then map_option (\<lambda>n. - int n) (read_nat cs)
          else map_option int (read_nat s))"

definition printed_number :: "string \<Rightarrow> string \<Rightarrow> int option" where
  "printed_number label text =
     (case printed_field label text of None \<Rightarrow> None | Some v \<Rightarrow> read_int v)"

text \<open>The texts a run has printed, in order.\<close>

definition printed_texts :: "'e event list \<Rightarrow> string list" where
  "printed_texts tr =
     concat (map (\<lambda>x. case x of Text s \<Rightarrow> [s] | WordList _ \<Rightarrow> []) (console tr))"



section \<open>A concrete environment\<close>

text \<open>
  Three reports on disk, a checkpoint trained with batch size 32 for 10 epochs, and a
  configuration that now asks for batch size 16 and 5 epochs. The seeded generator
  answers as numpy's does for the seeds and the population used below
  (\<open>RandomState(1).permutation(3)\<close> is 0, 2, 1 and \<open>RandomState(2).permutation(3)\<close> is
  2, 1, 0) and with the positions in order elsewhere; it raises when asked for more
  positions than rows, as numpy does. The global generator is in a state where it
  answers with the positions in reverse. Objects are numbered.
\<close>

definition demo_dataset :: dataframe where
  "demo_dataset =
     \<lparr>columns = [''id'', ''text''],
      rows = [ [(''id'', Num 1), (''text'', Str ''no acute  findings'')],
               [(''id'', Num 2), (''text'', Str ''heart size normal '')],
               [(''id'', Num 3), (''text'', Str ''clear lungs'')] ]\<rparr>"

definition demo_train :: dataframe where
  "demo_train =
     \<lparr>columns = [''id'', ''text'', ''path''],
      rows = [ [(''id'', Num 1), (''text'', Str ''no acute findings''),
                (''path'', Str ''data/images/1.png'')],
               [(''id'', Num 3), (''text'', Str ''clear lungs''),
                (''path'', Str ''data/images/3.png'')] ]\<rparr>"

definition demo_test :: dataframe where
  "demo_test =
     \<lparr>columns = [''id'', ''text'', ''path''],
      rows = [ [(''id'', Num 2), (''text'', Str ''heart size normal''),
                (''path'', Str ''data/images/2.png'')] ]\<rparr>"

definition demo_paths :: pathfinder where
  "demo_paths =
     \<lparr>DATA_PATH = ''data'', IMG_DATA_PATH = ''data/images'', CHECKPOINT_PATH = ''ckpt''\<rparr>"

definition demo_cnf :: configuration where
  "demo_cnf =
     \<lparr>TRAIN_SAMPLES = 2, TEST_SAMPLES = 1, SEED = 1, seed = 1, IMG_SHAPE = [224, 224, 3],
      BATCH_SIZE = 16, EPOCHS = 5, IMG_AUGMENT = False, ML_DEVICE = ''CPU''\<rparr>"

definition demo_permutation :: "int \<Rightarrow> nat \<Rightarrow> nat list" where
  "demo_permutation random_state population =
     (if population = 3 \<and> random_state = 1 then [0, 2, 1]
      else if population = 3 \<and> random_state = 2 then [2, 1, 0]
      else [0..<population])"

definition demo_choice :: "string choice" where
  "demo_choice random_state population n =
     (if population < n then Inl ValueError
      else Inr (take n (demo_permutation random_state population)))"

definition demo_global_choice :: "string draw" where
  "demo_global_choice population n =
     (if population < n then Inl ValueError else Inr (take n (rev [0..<population])))"

definition demo_read_csv :: "csv_request \<Rightarrow> string error + dataframe" where
  "demo_read_csv req =
     (if filepath req = ''data/XREP_dataset.csv'' then Inr demo_dataset
      else if filepath req = ''ckpt/run/preprocessing/XREP_train.csv'' then Inr demo_train
      else if filepath req = ''ckpt/run/preprocessing/XREP_test.csv'' then Inr demo_test
      else Inl (LibraryError ''FileNotFoundError''))"

definition demo_ext :: "(string, nat) env" where
  "demo_ext =
     \<lparr>read_csv = demo_read_csv,
      find_images_path =
        (\<lambda>path df. Inr (df\<lparr>columns := columns df @ [''path''],
                            rows := map (\<lambda>r. r @ [(''path'', Str path)]) (rows df)\<rparr>)),
      choice = demo_choice,
      global_choice = demo_global_choice,
      DataValidation = Inr 0,
      Inference = (\<lambda>s. Inr 1),
      load_pretrained_model =
        (\<lambda>inference path. Inr (2, \<lparr>batch_size = 32, epochs = 10\<rparr>, 3)),
      folder_path = (\<lambda>inference. Inr ''ckpt/run''),
      summary = (\<lambda>model. Inr ()),
      ModelTraining = (\<lambda>device s. Inr 4),
      DataGenerator = (\<lambda>df batch shape shuffle augmentation. Inr (5 + length (rows df))),
      TensorDataSet = Inr 8,
      create_tf_dataset = (\<lambda>datamaker generator. Inr (10 + generator))\<rparr>"

text \<open>The concrete dataset as \<open>find_images_path\<close> of the concrete environment returns it.\<close>

definition demo_loaded :: dataframe where
  "demo_loaded =
     \<lparr>columns = [''id'', ''text'', ''path''],
      rows = [ [(''id'', Num 1), (''text'', Str ''no acute  findings''),
                (''path'', Str ''data/images'')],
               [(''id'', Num 2), (''text'', Str ''heart size normal ''),
                (''path'', Str ''data/images'')],
               [(''id'', Num 3), (''text'', Str ''clear lungs''),
                (''path'', Str ''data/images'')] ]\<rparr>"

text \<open>
  A second environment: another checkpoint, other rows in the two files (again two and
  one), other objects; and a configuration that shares only the batch size and the
  epoch count with the first.
\<close>

definition other_read_csv :: "csv_request \<Rightarrow> string error + dataframe" where
  "other_read_csv req =
     (if filepath req = ''models/m7/preprocessing/XREP_train.csv''
      then Inr \<lparr>columns = [''text''],
                rows = [ [(''text'', Str ''a'')], [(''text'', Str ''b'')] ]\<rparr>
      else if filepath req = ''models/m7/preprocessing/XREP_test.csv''
      then Inr \<lparr>columns = [''text''], rows = [ [(''text'', Str ''c'')] ]\<rparr>
      else Inl (LibraryError ''FileNotFoundError''))"

definition other_ext :: "(string, nat) env" where
  "other_ext =
     demo_ext\<lparr>read_csv := other_read_csv,
              load_pretrained_model :=
                (\<lambda>inference path. Inr (70, \<lparr>batch_size = 8, epochs = 1\<rparr>, 71)),
              folder_path := (\<lambda>inference. Inr ''models/m7''),
              DataGenerator := (\<lambda>df batch shape shuffle augmentation. Inr 72),
              create_tf_dataset := (\<lambda>datamaker generator. Inr 73)\<rparr>"

definition other_cnf :: configuration where
  "other_cnf =
     \<lparr>TRAIN_SAMPLES = 100, TEST_SAMPLES = 20, SEED = 9, seed = 7, IMG_SHAPE = [64, 64, 1],
      BATCH_SIZE = 16, EPOCHS = 5, IMG_AUGMENT = True, ML_DEVICE = ''GPU''\<rparr>"

text \<open>
  A third environment: the first, except that the construction of a generator raises,
  as it would over a folder of images that is not there.
\<close>

definition broken_ext :: "(string, nat) env" where
  "broken_ext =
     demo_ext\<lparr>DataGenerator := (\<lambda>df batch shape shuffle augmentation.
                                  Inl (LibraryError ''FileNotFoundError''))\<rparr>"

section \<open>Numbers in the report can be read back\<close>

lemma digit_isdigit: "d < 10 \<Longrightarrow> isdigit (digit d)"
  by (simp add: isdigit_def digit_def)

lemma digit_val: "d < 10 \<Longrightarrow> (of_char (digit d) :: nat) - 48 = d"
  by (simp add: digit_def)

lemma read_nat_from_append:
  "read_nat_from acc (xs @ ys) =
     (case read_nat_from acc xs of None \<Rightarrow> None | Some a \<Rightarrow> read_nat_from a ys)"
  by (induction xs arbitrary: acc) auto

lemma read_nat_from_str_nat: "read_nat_from 0 (str_nat n) = Some n"
proof (induction n rule: str_nat.induct)
  case (1 n)
  show ?case
  proof (cases "n < 10")
    case True
    then show ?thesis
      by (subst str_nat.simps) (simp add: digit_isdigit digit_val)
  next
    case False
    with 1 have ih: "read_nat_from 0 (str_nat (n div 10)) = Some (n div 10)" by simp
    have d: "n mod 10 < 10" by simp
    show ?thesis
      using False ih digit_isdigit [OF d] digit_val [OF d]
      by (subst str_nat.simps) (simp add: read_nat_from_append)
  qed
qed

lemma str_nat_digits: "\<forall>c \<in> set (str_nat n). isdigit c"
proof (induction n rule: str_nat.induct)
  case (1 n)
  show ?case
  proof (cases "n < 10")
    case True
    then show ?thesis by (subst str_nat.simps) (simp add: digit_isdigit)
  next
    case False
    with 1 have "\<forall>c \<in> set (str_nat (n div 10)). isdigit c" by simp
    moreover have "isdigit (digit (n mod 10))" by (simp add: digit_isdigit)
    ultimately show ?thesis using False by (subst str_nat.simps) simp
  qed
qed

lemma str_nat_nonempty: "str_nat n \<noteq> []"
  by (subst str_nat.simps) simp

lemma read_nat_str_nat: "read_nat (str_nat n) = Some n"
  by (simp add: read_nat_def str_nat_nonempty read_nat_from_str_nat)

lemma hd_str_nat_digit: "isdigit (hd (str_nat n))"
  using str_nat_digits [of n] str_nat_nonempty [of n] by (cases "str_nat n") auto

lemma read_int_str_nat: "read_int (str_nat n) = Some (int n)"
proof (cases "str_nat n")
  case Nil
  then show ?thesis using str_nat_nonempty by simp
next
  case (Cons c cs)
  with hd_str_nat_digit [of n] have "isdigit c" by simp
  then have "c \<noteq> CHR ''-''" by (auto simp: isdigit_def)
  with Cons read_nat_str_nat [of n] show ?thesis by (simp add: read_int_def)
qed

lemma read_int_str_int: "read_int (str_int i) = Some i"
proof (cases "i < 0")
  case True
  then show ?thesis by (simp add: str_int_def read_int_def read_nat_str_nat)
next
  case False
  then show ?thesis by (simp add: str_int_def read_int_str_nat)
qed

lemma nl_not_digit: "\<not> isdigit nl"
  by (simp add: isdigit_def)

lemma str_nat_no_nl: "nl \<notin> set (str_nat n)"
  using str_nat_digits [of n] nl_not_digit by blast

lemma str_int_no_nl: "nl \<notin> set (str_int i)"
  by (simp add: str_int_def str_nat_no_nl)

lemma lines_of_no_nl: "nl \<notin> set l \<Longrightarrow> lines_of l = [l]"
  by (induction l) auto

lemma lines_of_append: "nl \<notin> set l \<Longrightarrow> lines_of (l @ nl # rest) = l # lines_of rest"
  by (induction l) auto

lemma dropWhile_space_str_nat: "dropWhile (\<lambda>c. c = CHR '' '') (str_nat n) = str_nat n"
proof (cases "str_nat n")
  case Nil
  then show ?thesis by simp
next
  case (Cons c cs)
  with hd_str_nat_digit [of n] have "isdigit c" by simp
  then have "c \<noteq> CHR '' ''" by (auto simp: isdigit_def)
  with Cons show ?thesis by simp
qed

lemma dropWhile_space_str_int: "dropWhile (\<lambda>c. c = CHR '' '') (str_int i) = str_int i"
  by (simp add: str_int_def dropWhile_space_str_nat)

lemma lines_of_evaluation_report:
  "lines_of (evaluation_report a b c d) =
     [ [], rule_line, ''XRAYREP evaluation report'', rule_line,
       ''Number of train samples: '' @ str_nat a,
       ''Number of test samples:  '' @ str_nat b,
       rule_line,
       ''Batch size:              '' @ str_int c,
       ''Epochs:                  '' @ str_int d,
       rule_line, [] ]"
proof -
  have r: "nl \<notin> set rule_line" by (simp add: rule_line_def)
  show ?thesis
    unfolding evaluation_report_def
    by (simp add: lines_of_append r str_nat_no_nl str_int_no_nl)
qed

lemma printed_train:
  "printed_number ''Number of train samples:'' (evaluation_report a b c d) = Some (int a)"
  by (simp add: printed_number_def printed_field_def lines_of_evaluation_report rule_line_def
      dropWhile_space_str_nat read_int_str_nat)

lemma printed_test:
  "printed_number ''Number of test samples:'' (evaluation_report a b c d) = Some (int b)"
  by (simp add: printed_number_def printed_field_def lines_of_evaluation_report rule_line_def
      dropWhile_space_str_nat read_int_str_nat)

lemma printed_batch:
  "printed_number ''Batch size:'' (evaluation_report a b c d) = Some c"
  by (simp add: printed_number_def printed_field_def lines_of_evaluation_report rule_line_def
      dropWhile_space_str_int read_int_str_int)

lemma printed_epochs:
  "printed_number ''Epochs:'' (evaluation_report a b c d) = Some d"
  by (simp add: printed_number_def printed_field_def lines_of_evaluation_report rule_line_def
      dropWhile_space_str_int read_int_str_int)

section \<open>Runs\<close>

lemma snd_bind:
  "snd (bind m f) = (case snd m of Inl e \<Rightarrow> Inl e | Inr a \<Rightarrow> snd (f a))"
  by (cases m) (auto simp: bind_def split: sum.splits prod.splits)

lemma fst_bind:
  "fst (bind m f) = (case snd m of Inl e \<Rightarrow> fst m | Inr a \<Rightarrow> fst m @ fst (f a))"
  by (cases m) (auto simp: bind_def split: sum.splits prod.splits)

lemma snd_invoke: "snd (invoke c r) = r"
  by (simp add: invoke_def)

lemma fst_invoke: "fst (invoke c r) = [Called c (case r of Inl e \<Rightarrow> Some e | Inr _ \<Rightarrow> None)]"
  by (simp add: invoke_def)

lemma snd_ret: "snd (ret x) = Inr x"
  by (simp add: ret_def)

lemma fst_ret: "fst (ret x) = []"
  by (simp add: ret_def)

lemma snd_print: "snd (print x) = Inr ()"
  by (simp add: print_def)

lemma fst_print: "fst (print x) = [Print x]"
  by (simp add: print_def)

lemmas run_simps = snd_bind fst_bind snd_invoke fst_invoke snd_ret fst_ret snd_print fst_print

lemma comprehension_cell_split:
  "comprehension cell_split (map Str texts) = Inr (map split texts)"
  by (induction texts) simp_all

section \<open>The word list\<close>

text \<open>
  C3: for a dataset of N rows whose \<open>text\<close> column holds a string in every row, the text
  analysis cell succeeds, its word list is the concatenation of the per-row splits, and
  the length of the word list is the sum over the rows of the per-row word counts.
\<close>

theorem words_list_length:
  assumes "(getitem dataset ''text'' :: 'e error + cell list) = Inr (map Str texts)"
  shows "snd (words_of dataset :: ('e, string list) run) = Inr (concat (map split texts))
       \<and> length (concat (map split texts)) = (\<Sum>t\<leftarrow>texts. length (split t))
       \<and> length texts = shape0 dataset"
proof -
  have "snd (words_of dataset :: ('e, string list) run) = Inr (concat (map split texts))"
    by (simp add: words_of_def run_simps assms comprehension_cell_split)
  moreover have "length (concat (map split texts)) = (\<Sum>t\<leftarrow>texts. length (split t))"
    by (simp add: length_concat comp_def)
  moreover have "length texts = shape0 dataset"
  proof -
    from assms have "map (\<lambda>r. case map_of r ''text'' of Some v \<Rightarrow> v | None \<Rightarrow> NaN)
        (rows dataset) = map Str texts"
      by (simp add: getitem_def split: if_splits)
    then have "length (rows dataset) = length texts"
      by (rule map_eq_imp_length_eq)
    then show ?thesis by (simp add: shape0_def)
  qed
  ultimately show ?thesis by simp
qed

text \<open>The three reports of the concrete dataset give 3 + 3 + 2 words.\<close>

theorem words_list_length_witness:
  "getitem demo_dataset ''text''
     = (Inr (map Str [''no acute  findings'', ''heart size normal '', ''clear lungs''])
          :: string error + cell list)
   \<and> snd (words_of demo_dataset :: (string, string list) run)
     = Inr [''no'', ''acute'', ''findings'', ''heart'', ''size'', ''normal'', ''clear'', ''lungs'']
   \<and> length [''no'', ''acute'', ''findings'', ''heart'', ''size'', ''normal'', ''clear'',
               ''lungs'']
     = length (split ''no acute  findings'') + length (split ''heart size normal '')
       + length (split ''clear lungs'')
   \<and> shape0 demo_dataset = 3"
proof -
  have h: "getitem demo_dataset ''text''
     = (Inr (map Str [''no acute  findings'', ''heart size normal '', ''clear lungs''])
          :: string error + cell list)"
    by (simp add: getitem_def demo_dataset_def)
  have s: "map split [''no acute  findings'', ''heart size normal '', ''clear lungs'']
     = [[''no'', ''acute'', ''findings''], [''heart'', ''size'', ''normal''], [''clear'', ''lungs'']]"
    by (simp add: split_def isspace_def)
  have c: "length (split ''no acute  findings'') + length (split ''heart size normal '')
       + length (split ''clear lungs'') = 8"
    by (simp add: split_def isspace_def)
  from words_list_length [OF h] have
    "snd (words_of demo_dataset :: (string, string list) run)
       = Inr [''no'', ''acute'', ''findings'', ''heart'', ''size'', ''normal'', ''clear'', ''lungs'']"
    and "3 = shape0 demo_dataset"
    unfolding s by simp_all
  with h c show ?thesis by simp
qed

section \<open>The sampled subset\<close>

lemma demo_subset:
  "select_subset demo_ext demo_cnf demo_dataset =
     ([Called (Sample 3 1) None],
      Inr \<lparr>columns = [''id'', ''text''],
           rows = [ [(''id'', Num 1), (''text'', Str ''no acute  findings'')],
                    [(''id'', Num 3), (''text'', Str ''clear lungs'')],
                    [(''id'', Num 2), (''text'', Str ''heart size normal '')] ]\<rparr>)"
  by code_simp

text \<open>
  C2: the subset selection hands pandas the seed, so pandas draws from a generator of
  its own, fresh from that seed, and never from the global generator. The outcome
  of the selection is therefore fixed by the dataset, the seed and the sample count:
  it is the rows of the dataset at the positions the seeded generator answers for
  the row count and \<open>TRAIN_SAMPLES + TEST_SAMPLES\<close>. Two runs on the same dataset with the
  same seed and the same total, against the same seeded generator, issue the same
  call and get the same rows in the same order, whatever state the global generator
  is in and whatever else the two runs differ in.
\<close>

theorem subset_deterministic:
  assumes "choice ext1 = choice ext2"
    and "SEED cnf1 = SEED cnf2"
    and "TRAIN_SAMPLES cnf1 + TEST_SAMPLES cnf1 = TRAIN_SAMPLES cnf2 + TEST_SAMPLES cnf2"
  shows "select_subset ext1 cnf1 dataset = select_subset ext2 cnf2 dataset
       \<and> snd (select_subset ext1 cnf1 dataset)
           = (case choice ext1 (SEED cnf1) (shape0 dataset)
                     (TRAIN_SAMPLES cnf1 + TEST_SAMPLES cnf1) of
                Inl e \<Rightarrow> Inl e
              | Inr locs \<Rightarrow> take_rows dataset locs)"
  using assms
  by (simp add: select_subset_def Let_def df_sample_def snd_invoke shape0_def)

text \<open>
  A second run finds the global generator in another state and splits the same total
  of three samples differently (and asks for another batch size); both runs select
  rows 1, 3, 2 of the concrete dataset, in this order.
\<close>

theorem subset_deterministic_witness:
  "choice demo_ext
     = choice (demo_ext\<lparr>global_choice := \<lambda>population n. Inr (take n [0..<population])\<rparr>)
   \<and> SEED demo_cnf = SEED (demo_cnf\<lparr>TRAIN_SAMPLES := 0, TEST_SAMPLES := 3, BATCH_SIZE := 64\<rparr>)
   \<and> TRAIN_SAMPLES demo_cnf + TEST_SAMPLES demo_cnf = 0 + 3
   \<and> select_subset (demo_ext\<lparr>global_choice := \<lambda>population n. Inr (take n [0..<population])\<rparr>)
        (demo_cnf\<lparr>TRAIN_SAMPLES := 0, TEST_SAMPLES := 3, BATCH_SIZE := 64\<rparr>) demo_dataset =
      ([Called (Sample 3 1) None],
       Inr \<lparr>columns = [''id'', ''text''],
            rows = [ [(''id'', Num 1), (''text'', Str ''no acute  findings'')],
                     [(''id'', Num 3), (''text'', Str ''clear lungs'')],
                     [(''id'', Num 2), (''text'', Str ''heart size normal '')] ]\<rparr>)"
proof -
  let ?ext = "demo_ext\<lparr>global_choice := \<lambda>population n. Inr (take n [0..<population])\<rparr>"
  let ?cnf = "demo_cnf\<lparr>TRAIN_SAMPLES := 0, TEST_SAMPLES := 3, BATCH_SIZE := 64\<rparr>"
  have c: "choice demo_ext = choice ?ext"
    by simp
  have s: "SEED demo_cnf = SEED ?cnf"
    by simp
  have t: "TRAIN_SAMPLES demo_cnf + TEST_SAMPLES demo_cnf
      = TRAIN_SAMPLES ?cnf + TEST_SAMPLES ?cnf"
    by (simp add: demo_cnf_def)
  from subset_deterministic [OF c s t, of demo_dataset]
  have "select_subset demo_ext demo_cnf demo_dataset = select_subset ?ext ?cnf demo_dataset"
    by blast
  with demo_subset have "select_subset ?ext ?cnf demo_dataset =
      ([Called (Sample 3 1) None],
       Inr \<lparr>columns = [''id'', ''text''],
            rows = [ [(''id'', Num 1), (''text'', Str ''no acute  findings'')],
                     [(''id'', Num 3), (''text'', Str ''clear lungs'')],
                     [(''id'', Num 2), (''text'', Str ''heart size normal '')] ]\<rparr>)"
    by simp
  moreover have "TRAIN_SAMPLES demo_cnf + TEST_SAMPLES demo_cnf = 0 + 3"
    by (simp add: demo_cnf_def)
  ultimately show ?thesis using c s by blast
qed

lemma take_rows_ok:
  assumes "\<forall>i \<in> set locs. i < length (rows df)"
  shows "\<exists>sub. (take_rows df locs :: 'e error + dataframe) = Inr sub
           \<and> length (rows sub) = length locs
           \<and> set (rows sub) \<subseteq> set (rows df)
           \<and> columns sub = columns df"
  using assms by (auto simp: take_rows_def)

text \<open>
  C5: when the generator, for the configured seed, answers a request for n positions out
  of a population of at least n with n positions inside the population, the subset
  selected from a dataset with at least TRAIN_SAMPLES + TEST_SAMPLES rows has exactly
  that many rows, each of which is a row of the dataset (and it keeps the columns).
\<close>

theorem subset_size:
  assumes "\<forall>population n. n \<le> population \<longrightarrow>
             (\<exists>locs. choice ext (SEED cnf) population n = Inr locs
                \<and> length locs = n \<and> (\<forall>i \<in> set locs. i < population))"
    and "TRAIN_SAMPLES cnf + TEST_SAMPLES cnf \<le> shape0 dataset"
  shows "\<exists>sub. snd (select_subset ext cnf dataset) = Inr sub
           \<and> shape0 sub = TRAIN_SAMPLES cnf + TEST_SAMPLES cnf
           \<and> set (rows sub) \<subseteq> set (rows dataset)
           \<and> columns sub = columns dataset"
proof -
  let ?n = "TRAIN_SAMPLES cnf + TEST_SAMPLES cnf"
  from assms obtain locs where
    c: "choice ext (SEED cnf) (length (rows dataset)) ?n = Inr locs"
    and l: "length locs = ?n" and r: "\<forall>i \<in> set locs. i < length (rows dataset)"
    unfolding shape0_def by blast
  from take_rows_ok [OF r] obtain sub where
    "(take_rows dataset locs :: 'a error + dataframe) = Inr sub"
    "length (rows sub) = length locs" "set (rows sub) \<subseteq> set (rows dataset)"
    "columns sub = columns dataset" by blast
  with c l show ?thesis
    by (simp add: select_subset_def Let_def snd_invoke df_sample_def shape0_def)
qed

lemma demo_choice_contract:
  "\<forall>population n. n \<le> population \<longrightarrow>
     (\<exists>locs. choice demo_ext (SEED demo_cnf) population n = Inr locs
        \<and> length locs = n \<and> (\<forall>i \<in> set locs. i < population))"
proof (intro allI impI)
  fix population n :: nat
  assume le: "n \<le> population"
  let ?locs = "take n (demo_permutation 1 population)"
  have p: "length (demo_permutation 1 population) = population"
    "set (demo_permutation 1 population) = {0..<population}"
    by (auto simp: demo_permutation_def)
  have "choice demo_ext (SEED demo_cnf) population n = Inr ?locs"
    using le by (simp add: demo_ext_def demo_cnf_def demo_choice_def)
  moreover have "length ?locs = n" using le p by simp
  moreover have "\<forall>i \<in> set ?locs. i < population"
  proof
    fix i assume "i \<in> set ?locs"
    then have "i \<in> set (demo_permutation 1 population)" by (rule in_set_takeD)
    with p show "i < population" by simp
  qed
  ultimately show "\<exists>locs. choice demo_ext (SEED demo_cnf) population n = Inr locs
        \<and> length locs = n \<and> (\<forall>i \<in> set locs. i < population)" by blast
qed

text \<open>The concrete generator meets the condition; three of three rows are selected.\<close>

theorem subset_size_witness:
  "TRAIN_SAMPLES demo_cnf + TEST_SAMPLES demo_cnf \<le> shape0 demo_dataset
   \<and> (\<exists>sub. snd (select_subset demo_ext demo_cnf demo_dataset) = Inr sub
           \<and> shape0 sub = 3
           \<and> set (rows sub) \<subseteq> set (rows demo_dataset)
           \<and> columns sub = columns demo_dataset)"
proof -
  have le: "TRAIN_SAMPLES demo_cnf + TEST_SAMPLES demo_cnf \<le> shape0 demo_dataset"
    by (simp add: demo_cnf_def shape0_def demo_dataset_def)
  have n: "TRAIN_SAMPLES demo_cnf + TEST_SAMPLES demo_cnf = 3"
    by (simp add: demo_cnf_def)
  from subset_size [OF demo_choice_contract le] show ?thesis
    using le unfolding n by blast
qed

section \<open>Failures\<close>











section \<open>What the evaluation notebook prints\<close>

lemma console_append: "console (xs @ ys) = console xs @ console ys"
  by (simp add: console_def)

lemma console_Called: "console [Called c r] = []"
  by (simp add: console_def)

lemma console_Print: "console [Print x] = [x]"
  by (simp add: console_def)

lemma console_Nil: "console [] = []"
  by (simp add: console_def)

lemmas console_simps = console_append console_Called console_Print console_Nil

lemma silent_bind:
  assumes "console (fst m) = []" and "\<And>a. console (fst (f a)) = []"
  shows "console (fst (bind m f)) = []"
  using assms by (simp add: fst_bind console_append split: sum.splits)

lemma silent_invoke: "console (fst (invoke c r)) = []"
  by (simp add: fst_invoke console_Called)

lemma silent_ret: "console (fst (ret x)) = []"
  by (simp add: fst_ret console_Nil)

lemmas silent_intros = silent_bind silent_invoke silent_ret

lemma console_load_data_and_model: "console (fst (load_data_and_model ext pf cnf)) = []"
  unfolding load_data_and_model_def load_model_def load_csv_files_def Let_def
  by (intro silent_intros | simp only: split_paired_all prod.case)+

lemma console_create_datasets:
  "console (fst (create_datasets ext cnf train_data test_data)) = []"
  unfolding create_datasets_def
  by (intro silent_intros)

lemma evaluation_console:
  assumes l: "snd (load_data_and_model ext pf cnf) = Inr (model, params, train_data, test_data)"
    and c: "snd (evaluation_notebook ext pf cnf) = Inr ()"
  shows "console (fst (evaluation_notebook ext pf cnf)) =
           [Text (evaluation_report (shape0 train_data) (shape0 test_data)
                    (BATCH_SIZE cnf) (EPOCHS cnf))]"
proof -
  from c l obtain ds where d: "snd (create_datasets ext cnf train_data test_data) = Inr ds"
    by (auto simp: evaluation_notebook_def evaluation_rest_def run_simps split: sum.splits)
  show ?thesis
    using l d
    by (simp add: evaluation_notebook_def evaluation_rest_def evaluation_summary_def Let_def
        run_simps console_simps console_load_data_and_model console_create_datasets)
qed

lemma evaluation_console_incomplete:
  assumes "snd (evaluation_notebook ext pf cnf) = Inl e"
  shows "console (fst (evaluation_notebook ext pf cnf)) = []"
  using assms
  by (auto simp: evaluation_notebook_def evaluation_rest_def evaluation_summary_def Let_def
      run_simps console_simps console_load_data_and_model console_create_datasets
      split: sum.splits prod.splits)

lemma evaluation_loaded:
  assumes "snd (evaluation_notebook ext pf cnf) = Inr ()"
  shows "\<exists>model params train_data test_data.
           snd (load_data_and_model ext pf cnf) = Inr (model, params, train_data, test_data)"
  using assms
  by (auto simp: evaluation_notebook_def run_simps split: sum.splits)

lemma printed_texts_console:
  "console tr = [Text s] \<Longrightarrow> printed_texts tr = [s]"
  by (simp add: printed_texts_def)

lemma demo_load_data_and_model:
  "snd (load_data_and_model demo_ext demo_paths cnf)
     = Inr (2, \<lparr>batch_size = 32, epochs = 10\<rparr>, demo_train, demo_test)"
  by (simp add: load_data_and_model_def load_model_def load_csv_files_def run_simps
      demo_ext_def demo_read_csv_def demo_paths_def path_join_def csv_args_def)

lemma demo_create_datasets:
  "snd (create_datasets demo_ext cnf train_data test_data)
     = Inr (15 + length (rows train_data), 15 + length (rows test_data))"
  by (simp add: create_datasets_def run_simps demo_ext_def)

lemma demo_evaluation_completes:
  "snd (evaluation_notebook demo_ext demo_paths cnf) = Inr ()"
  by (simp add: evaluation_notebook_def evaluation_rest_def evaluation_summary_def run_simps
      demo_load_data_and_model demo_create_datasets)

lemma demo_shapes: "shape0 demo_train = 2" "shape0 demo_test = 1"
  by (simp_all add: shape0_def demo_train_def demo_test_def)

text \<open>
  C1 (as stated): the checkpoint of the concrete environment records batch size 32 and
  10 epochs, while the summary prints 16 and 5, the values of the configuration.
\<close>

theorem summary_parameters_counterexample:
  "snd (load_data_and_model demo_ext demo_paths demo_cnf)
     = Inr (2, \<lparr>batch_size = 32, epochs = 10\<rparr>, demo_train, demo_test)
   \<and> map (printed_number ''Batch size:'')
        (printed_texts (fst (evaluation_notebook demo_ext demo_paths demo_cnf))) = [Some 16]
   \<and> map (printed_number ''Epochs:'')
        (printed_texts (fst (evaluation_notebook demo_ext demo_paths demo_cnf))) = [Some 5]
   \<and> map (printed_number ''Batch size:'')
        (printed_texts (fst (evaluation_notebook demo_ext demo_paths demo_cnf)))
       \<noteq> [Some (batch_size \<lparr>batch_size = 32, epochs = 10\<rparr>)]
   \<and> map (printed_number ''Epochs:'')
        (printed_texts (fst (evaluation_notebook demo_ext demo_paths demo_cnf)))
       \<noteq> [Some (epochs \<lparr>batch_size = 32, epochs = 10\<rparr>)]"
proof -
  have "printed_texts (fst (evaluation_notebook demo_ext demo_paths demo_cnf))
      = [evaluation_report 2 1 16 5]"
    using evaluation_console [OF demo_load_data_and_model demo_evaluation_completes,
        of demo_cnf]
    by (simp add: printed_texts_def demo_shapes demo_cnf_def)
  then show ?thesis
    by (simp add: demo_load_data_and_model printed_batch printed_epochs)
qed

text \<open>
  C1 (amended): in a run of the evaluation notebook that completes, the summary is the
  one text printed, and the batch size and epoch count it shows are the configuration
  values \<open>cnf.BATCH_SIZE\<close> and \<open>cnf.EPOCHS\<close>, whatever parameters record
  \<open>load_pretrained_model\<close> returned; they equal the values recorded in that record exactly
  when the record agrees with the configuration.
\<close>

theorem summary_prints_configuration:
  assumes "snd (load_data_and_model ext pf cnf) = Inr (model, params, train_data, test_data)"
    and "snd (evaluation_notebook ext pf cnf) = Inr ()"
  shows "\<exists>report. printed_texts (fst (evaluation_notebook ext pf cnf)) = [report]
           \<and> printed_number ''Batch size:'' report = Some (BATCH_SIZE cnf)
           \<and> printed_number ''Epochs:'' report = Some (EPOCHS cnf)
           \<and> (printed_number ''Batch size:'' report = Some (batch_size params)
                \<longleftrightarrow> batch_size params = BATCH_SIZE cnf)
           \<and> (printed_number ''Epochs:'' report = Some (epochs params)
                \<longleftrightarrow> epochs params = EPOCHS cnf)"
proof -
  let ?report = "evaluation_report (shape0 train_data) (shape0 test_data)
                   (BATCH_SIZE cnf) (EPOCHS cnf)"
  have "printed_texts (fst (evaluation_notebook ext pf cnf)) = [?report]"
    using evaluation_console [OF assms] by (rule printed_texts_console)
  moreover have "printed_number ''Batch size:'' ?report = Some (BATCH_SIZE cnf)"
    by (rule printed_batch)
  moreover have "printed_number ''Epochs:'' ?report = Some (EPOCHS cnf)"
    by (rule printed_epochs)
  ultimately show ?thesis by auto
qed

text \<open>
  With a configuration that asks for the checkpoint's own batch size 32 and 10 epochs,
  the printed values and the recorded ones coincide.
\<close>

theorem summary_prints_configuration_witness:
  "snd (load_data_and_model demo_ext demo_paths (demo_cnf\<lparr>BATCH_SIZE := 32, EPOCHS := 10\<rparr>))
     = Inr (2, \<lparr>batch_size = 32, epochs = 10\<rparr>, demo_train, demo_test)
   \<and> snd (evaluation_notebook demo_ext demo_paths (demo_cnf\<lparr>BATCH_SIZE := 32, EPOCHS := 10\<rparr>))
     = Inr ()
   \<and> (\<exists>report.
         printed_texts (fst (evaluation_notebook demo_ext demo_paths
                               (demo_cnf\<lparr>BATCH_SIZE := 32, EPOCHS := 10\<rparr>))) = [report]
         \<and> printed_number ''Batch size:'' report = Some 32
         \<and> printed_number ''Epochs:'' report = Some 10)"
proof -
  let ?cnf = "demo_cnf\<lparr>BATCH_SIZE := 32, EPOCHS := 10\<rparr>"
  have l: "snd (load_data_and_model demo_ext demo_paths ?cnf)
      = Inr (2, \<lparr>batch_size = 32, epochs = 10\<rparr>, demo_train, demo_test)"
    by (rule demo_load_data_and_model)
  have c: "snd (evaluation_notebook demo_ext demo_paths ?cnf) = Inr ()"
    by (rule demo_evaluation_completes)
  from summary_prints_configuration [OF l c] obtain report where
    "printed_texts (fst (evaluation_notebook demo_ext demo_paths ?cnf)) = [report]"
    "printed_number ''Batch size:'' report = Some 32"
    "printed_number ''Epochs:'' report = Some 10"
    by auto
  with l c show ?thesis by blast
qed

lemma load_data_and_model_csv:
  assumes "snd (load_model ext pf cnf) = Inr (model, params, model_path)"
    and "snd (load_data_and_model ext pf cnf) = Inr (model', params', train_data, test_data)"
  shows "read_csv ext (csv_args (path_join (path_join model_path ''preprocessing'')
                                   ''XREP_train.csv'')) = Inr train_data
       \<and> read_csv ext (csv_args (path_join (path_join model_path ''preprocessing'')
                                   ''XREP_test.csv'')) = Inr test_data
       \<and> model' = model \<and> params' = params"
  using assms
  by (auto simp: load_data_and_model_def load_csv_files_def Let_def run_simps
      split: sum.splits)

text \<open>
  C4: in a run of the evaluation notebook that completes, the number of train samples
  shown in the summary is the row count of the dataframe read from \<open>XREP_train.csv\<close>, and
  the number of test samples that of the dataframe read from \<open>XREP_test.csv\<close>, both in
  the \<open>preprocessing\<close> folder of the loaded checkpoint.
\<close>

theorem summary_sample_counts:
  assumes "snd (load_model ext pf cnf) = Inr (model, params, model_path)"
    and "snd (evaluation_notebook ext pf cnf) = Inr ()"
  shows "\<exists>train_data test_data report.
           read_csv ext (csv_args (path_join (path_join model_path ''preprocessing'')
                                     ''XREP_train.csv'')) = Inr train_data
         \<and> read_csv ext (csv_args (path_join (path_join model_path ''preprocessing'')
                                     ''XREP_test.csv'')) = Inr test_data
         \<and> printed_texts (fst (evaluation_notebook ext pf cnf)) = [report]
         \<and> printed_number ''Number of train samples:'' report = Some (int (shape0 train_data))
         \<and> printed_number ''Number of test samples:'' report = Some (int (shape0 test_data))"
proof -
  from evaluation_loaded [OF assms(2)] obtain model' params' train_data test_data where
    l: "snd (load_data_and_model ext pf cnf) = Inr (model', params', train_data, test_data)"
    by blast
  let ?report = "evaluation_report (shape0 train_data) (shape0 test_data)
                   (BATCH_SIZE cnf) (EPOCHS cnf)"
  have "printed_texts (fst (evaluation_notebook ext pf cnf)) = [?report]"
    using evaluation_console [OF l assms(2)] by (rule printed_texts_console)
  moreover have "printed_number ''Number of train samples:'' ?report
      = Some (int (shape0 train_data))"
    by (rule printed_train)
  moreover have "printed_number ''Number of test samples:'' ?report
      = Some (int (shape0 test_data))"
    by (rule printed_test)
  ultimately show ?thesis
    using load_data_and_model_csv [OF assms(1) l] by blast
qed

lemma demo_load_model:
  "snd (load_model demo_ext demo_paths cnf)
     = Inr (2, \<lparr>batch_size = 32, epochs = 10\<rparr>, ''ckpt/run'')"
  by (simp add: load_model_def run_simps demo_ext_def)

lemma demo_csv_paths:
  "path_join (path_join ''ckpt/run'' ''preprocessing'') ''XREP_train.csv''
     = ''ckpt/run/preprocessing/XREP_train.csv''"
  "path_join (path_join ''ckpt/run'' ''preprocessing'') ''XREP_test.csv''
     = ''ckpt/run/preprocessing/XREP_test.csv''"
  by (simp_all add: path_join_def)

text \<open>The concrete checkpoint holds two train rows and one test row.\<close>

theorem summary_sample_counts_witness:
  "snd (load_model demo_ext demo_paths demo_cnf)
     = Inr (2, \<lparr>batch_size = 32, epochs = 10\<rparr>, ''ckpt/run'')
   \<and> snd (evaluation_notebook demo_ext demo_paths demo_cnf) = Inr ()
   \<and> (\<exists>report. printed_texts (fst (evaluation_notebook demo_ext demo_paths demo_cnf)) = [report]
         \<and> printed_number ''Number of train samples:'' report = Some 2
         \<and> printed_number ''Number of test samples:'' report = Some 1)"
proof -
  have l: "snd (load_model demo_ext demo_paths demo_cnf)
      = Inr (2, \<lparr>batch_size = 32, epochs = 10\<rparr>, ''ckpt/run'')"
    by (rule demo_load_model)
  have c: "snd (evaluation_notebook demo_ext demo_paths demo_cnf) = Inr ()"
    by (rule demo_evaluation_completes)
  from summary_sample_counts [OF l c] obtain train_data test_data report where
    r: "read_csv demo_ext (csv_args ''ckpt/run/preprocessing/XREP_train.csv'') = Inr train_data"
       "read_csv demo_ext (csv_args ''ckpt/run/preprocessing/XREP_test.csv'') = Inr test_data"
    and p: "printed_texts (fst (evaluation_notebook demo_ext demo_paths demo_cnf)) = [report]"
       "printed_number ''Number of train samples:'' report = Some (int (shape0 train_data))"
       "printed_number ''Number of test samples:'' report = Some (int (shape0 test_data))"
    unfolding demo_csv_paths by blast
  from r have "train_data = demo_train" "test_data = demo_test"
    by (simp_all add: demo_ext_def demo_read_csv_def csv_args_def)
  with p have "printed_number ''Number of train samples:'' report = Some 2"
    "printed_number ''Number of test samples:'' report = Some 1"
    by (simp_all add: demo_shapes)
  with p(1) l c show ?thesis by blast
qed

lemma broken_load_data_and_model:
  "snd (load_data_and_model broken_ext demo_paths cnf)
     = Inr (2, \<lparr>batch_size = 32, epochs = 10\<rparr>, demo_train, demo_test)"
  by (simp add: load_data_and_model_def load_model_def load_csv_files_def run_simps
      broken_ext_def demo_ext_def demo_read_csv_def demo_paths_def path_join_def csv_args_def)

lemma broken_create_datasets:
  "snd (create_datasets broken_ext cnf train_data test_data)
     = Inl (LibraryError ''FileNotFoundError'')"
  by (simp add: create_datasets_def run_simps broken_ext_def demo_ext_def)

lemma broken_evaluation_fails:
  "snd (evaluation_notebook broken_ext demo_paths cnf)
     = Inl (LibraryError ''FileNotFoundError'')"
  by (simp add: evaluation_notebook_def evaluation_rest_def run_simps
      broken_load_data_and_model broken_create_datasets)

text \<open>
  C9 (as stated): two runs with the same configuration read the same two dataframes
  from the same checkpoint, so they agree on the four values. In the first every call
  returns and the summary is printed; in the second the construction of the train
  generator raises, the run ends there, and nothing is printed.
\<close>

theorem summary_report_counterexample:
  "snd (load_data_and_model demo_ext demo_paths demo_cnf)
     = Inr (2, \<lparr>batch_size = 32, epochs = 10\<rparr>, demo_train, demo_test)
   \<and> snd (load_data_and_model broken_ext demo_paths demo_cnf)
     = Inr (2, \<lparr>batch_size = 32, epochs = 10\<rparr>, demo_train, demo_test)
   \<and> console (fst (evaluation_notebook demo_ext demo_paths demo_cnf))
     = [Text (evaluation_report 2 1 16 5)]
   \<and> console (fst (evaluation_notebook broken_ext demo_paths demo_cnf))
     = []
   \<and> snd (evaluation_notebook broken_ext demo_paths demo_cnf)
     = Inl (LibraryError ''FileNotFoundError'')"
proof -
  have "console (fst (evaluation_notebook demo_ext demo_paths demo_cnf))
      = [Text (evaluation_report 2 1 16 5)]"
    using evaluation_console [OF demo_load_data_and_model demo_evaluation_completes,
        of demo_cnf]
    by (simp add: demo_shapes demo_cnf_def)
  then show ?thesis
    using evaluation_console_incomplete [OF broken_evaluation_fails, of demo_cnf]
    by (simp add: demo_load_data_and_model broken_load_data_and_model broken_evaluation_fails)
qed

text \<open>
  C9 (amended): two runs of the evaluation notebook that complete and agree on the row
  counts of the two loaded dataframes and on \<open>BATCH_SIZE\<close> and \<open>EPOCHS\<close> print the same
  thing: the summary for these four values. The environments, the paths and the
  rest of the configurations are unrelated, and so are the loaded model, the
  generators and the datasets built from them.
\<close>

theorem summary_depends_on_four_values:
  assumes "snd (load_data_and_model ext1 pf1 cnf1) = Inr (model1, params1, train1, test1)"
    and "snd (load_data_and_model ext2 pf2 cnf2) = Inr (model2, params2, train2, test2)"
    and "snd (evaluation_notebook ext1 pf1 cnf1) = Inr ()"
    and "snd (evaluation_notebook ext2 pf2 cnf2) = Inr ()"
    and "shape0 train1 = shape0 train2"
    and "shape0 test1 = shape0 test2"
    and "BATCH_SIZE cnf1 = BATCH_SIZE cnf2"
    and "EPOCHS cnf1 = EPOCHS cnf2"
  shows "console (fst (evaluation_notebook ext1 pf1 cnf1))
           = console (fst (evaluation_notebook ext2 pf2 cnf2))
       \<and> console (fst (evaluation_notebook ext1 pf1 cnf1))
           = [Text (evaluation_report (shape0 train1) (shape0 test1)
                      (BATCH_SIZE cnf1) (EPOCHS cnf1))]"
  using evaluation_console [OF assms(1) assms(3)] evaluation_console [OF assms(2) assms(4)]
    assms(5-8)
  by simp

lemma other_load_data_and_model:
  "snd (load_data_and_model other_ext demo_paths cnf)
     = Inr (70, \<lparr>batch_size = 8, epochs = 1\<rparr>,
            \<lparr>columns = [''text''], rows = [ [(''text'', Str ''a'')], [(''text'', Str ''b'')] ]\<rparr>,
            \<lparr>columns = [''text''], rows = [ [(''text'', Str ''c'')] ]\<rparr>)"
  by (simp add: load_data_and_model_def load_model_def load_csv_files_def run_simps
      other_ext_def demo_ext_def other_read_csv_def path_join_def csv_args_def)

lemma other_create_datasets:
  "snd (create_datasets other_ext cnf train_data test_data) = Inr (73, 73)"
  by (simp add: create_datasets_def run_simps other_ext_def demo_ext_def)

lemma other_evaluation_completes:
  "snd (evaluation_notebook other_ext demo_paths cnf) = Inr ()"
  by (simp add: evaluation_notebook_def evaluation_rest_def evaluation_summary_def run_simps
      other_load_data_and_model other_create_datasets)

text \<open>
  The two concrete environments load different models, parameters and rows; both
  summaries are the one for 2 train samples, 1 test sample, batch size 16, 5 epochs.
\<close>

theorem summary_depends_on_four_values_witness:
  "snd (load_data_and_model demo_ext demo_paths demo_cnf)
     = Inr (2, \<lparr>batch_size = 32, epochs = 10\<rparr>, demo_train, demo_test)
   \<and> snd (load_data_and_model other_ext demo_paths other_cnf)
     = Inr (70, \<lparr>batch_size = 8, epochs = 1\<rparr>,
            \<lparr>columns = [''text''], rows = [ [(''text'', Str ''a'')], [(''text'', Str ''b'')] ]\<rparr>,
            \<lparr>columns = [''text''], rows = [ [(''text'', Str ''c'')] ]\<rparr>)
   \<and> snd (evaluation_notebook demo_ext demo_paths demo_cnf) = Inr ()
   \<and> snd (evaluation_notebook other_ext demo_paths other_cnf) = Inr ()
   \<and> console (fst (evaluation_notebook demo_ext demo_paths demo_cnf))
       = console (fst (evaluation_notebook other_ext demo_paths other_cnf))
   \<and> console (fst (evaluation_notebook demo_ext demo_paths demo_cnf))
       = [Text (evaluation_report 2 1 16 5)]"
proof -
  have 1: "snd (load_data_and_model demo_ext demo_paths demo_cnf)
     = Inr (2, \<lparr>batch_size = 32, epochs = 10\<rparr>, demo_train, demo_test)"
    by (rule demo_load_data_and_model)
  have 2: "snd (load_data_and_model other_ext demo_paths other_cnf)
     = Inr (70, \<lparr>batch_size = 8, epochs = 1\<rparr>,
            \<lparr>columns = [''text''], rows = [ [(''text'', Str ''a'')], [(''text'', Str ''b'')] ]\<rparr>,
            \<lparr>columns = [''text''], rows = [ [(''text'', Str ''c'')] ]\<rparr>)"
    by (rule other_load_data_and_model)
  have 3: "snd (evaluation_notebook demo_ext demo_paths demo_cnf) = Inr ()"
    by (rule demo_evaluation_completes)
  have 4: "snd (evaluation_notebook other_ext demo_paths other_cnf) = Inr ()"
    by (rule other_evaluation_completes)
  have 5: "shape0 demo_train
      = shape0 \<lparr>columns = [''text''], rows = [ [(''text'', Str ''a'')], [(''text'', Str ''b'')] ]\<rparr>"
    by (simp add: shape0_def demo_train_def)
  have 6: "shape0 demo_test = shape0 \<lparr>columns = [''text''], rows = [ [(''text'', Str ''c'')] ]\<rparr>"
    by (simp add: shape0_def demo_test_def)
  have 7: "BATCH_SIZE demo_cnf = BATCH_SIZE other_cnf"
    by (simp add: demo_cnf_def other_cnf_def)
  have 8: "EPOCHS demo_cnf = EPOCHS other_cnf"
    by (simp add: demo_cnf_def other_cnf_def)
  have v: "BATCH_SIZE demo_cnf = 16" "EPOCHS demo_cnf = 5"
    by (simp_all add: demo_cnf_def)
  from summary_depends_on_four_values [OF 1 2 3 4 5 6 7 8]
  have a: "console (fst (evaluation_notebook demo_ext demo_paths demo_cnf))
       = console (fst (evaluation_notebook other_ext demo_paths other_cnf))"
    and b: "console (fst (evaluation_notebook demo_ext demo_paths demo_cnf))
       = [Text (evaluation_report (shape0 demo_train) (shape0 demo_test)
                  (BATCH_SIZE demo_cnf) (EPOCHS demo_cnf))]"
    by blast+
  from b have "console (fst (evaluation_notebook demo_ext demo_paths demo_cnf))
       = [Text (evaluation_report 2 1 16 5)]"
    unfolding demo_shapes v .
  with a 1 2 3 4 show ?thesis by blast
qed

section \<open>What the validation notebook prints\<close>

lemma console_load_data: "console (fst (load_data ext pf cnf)) = []"
  unfolding load_data_def load_dataset_def select_subset_def Let_def
  by (intro silent_intros)

lemma load_data_result:
  assumes "snd (load_dataset ext pf) = Inr dataset"
    and "snd (select_subset ext cnf dataset) = Inr sub"
  shows "snd (load_data ext pf cnf) = Inr (dataset, sub)"
  using assms by (simp add: load_data_def run_simps)

lemma validation_rest_frame:
  "validation_rest ext (cnf\<lparr>SEED := s, TRAIN_SAMPLES := a, TEST_SAMPLES := b\<rparr>) (dataset, sub2)
     = validation_rest ext cnf (dataset, sub1)"
  by (simp add: validation_rest_def pixel_intensity_def)

text \<open>
  C10 (as stated): against the three rows of the concrete dataset, a configuration
  asking for 2 + 1 samples prints the word list and the picture-shape line; the same
  configuration with \<open>TRAIN_SAMPLES\<close> changed to 5 asks for more rows than there are,
  the sampling raises, and nothing is printed.
\<close>

theorem later_output_counterexample:
  "console (fst (validation_notebook demo_ext demo_paths demo_cnf))
     = [WordList [''no'', ''acute'', ''findings'', ''heart'', ''size'', ''normal'',
                  ''clear'', ''lungs''],
        Text ([nl]
          @ ''Loading pictures from train and test dataset. Current picture shape is (224, 224)''
          @ [nl])]
   \<and> console (fst (validation_notebook demo_ext demo_paths (demo_cnf\<lparr>TRAIN_SAMPLES := 5\<rparr>)))
     = []
   \<and> snd (validation_notebook demo_ext demo_paths (demo_cnf\<lparr>TRAIN_SAMPLES := 5\<rparr>))
     = Inl ValueError"
  by code_simp

text \<open>
  C10 (amended): the sampled subset is never read after it is computed. For two runs
  on the same dataset that differ only in \<open>SEED\<close>, \<open>TRAIN_SAMPLES\<close> or \<open>TEST_SAMPLES\<close> and
  in both of which the subset selection succeeds, the cells after the selection do
  the same (same calls, same prints, same outcome), the two runs print the same, and
  they end the same way.
\<close>

theorem later_output_unchanged:
  assumes "snd (load_dataset ext pf) = Inr dataset"
    and "snd (select_subset ext cnf dataset) = Inr sub1"
    and "snd (select_subset ext (cnf\<lparr>SEED := s, TRAIN_SAMPLES := a, TEST_SAMPLES := b\<rparr>)
               dataset) = Inr sub2"
  shows "validation_rest ext (cnf\<lparr>SEED := s, TRAIN_SAMPLES := a, TEST_SAMPLES := b\<rparr>)
             (dataset, sub2)
           = validation_rest ext cnf (dataset, sub1)
       \<and> console (fst (validation_notebook ext pf
                          (cnf\<lparr>SEED := s, TRAIN_SAMPLES := a, TEST_SAMPLES := b\<rparr>)))
           = console (fst (validation_notebook ext pf cnf))
       \<and> snd (validation_notebook ext pf
                 (cnf\<lparr>SEED := s, TRAIN_SAMPLES := a, TEST_SAMPLES := b\<rparr>))
           = snd (validation_notebook ext pf cnf)"
proof -
  let ?cnf' = "cnf\<lparr>SEED := s, TRAIN_SAMPLES := a, TEST_SAMPLES := b\<rparr>"
  have r: "validation_rest ext ?cnf' (dataset, sub2) = validation_rest ext cnf (dataset, sub1)"
    by (rule validation_rest_frame)
  have l1: "snd (load_data ext pf cnf) = Inr (dataset, sub1)"
    using assms(1,2) by (rule load_data_result)
  have l2: "snd (load_data ext pf ?cnf') = Inr (dataset, sub2)"
    using assms(1,3) by (rule load_data_result)
  have "console (fst (validation_notebook ext pf ?cnf'))
      = console (fst (validation_rest ext ?cnf' (dataset, sub2)))"
    by (simp add: validation_notebook_def fst_bind l2 console_append console_load_data)
  moreover have "console (fst (validation_notebook ext pf cnf))
      = console (fst (validation_rest ext cnf (dataset, sub1)))"
    by (simp add: validation_notebook_def fst_bind l1 console_append console_load_data)
  moreover have "snd (validation_notebook ext pf ?cnf')
      = snd (validation_rest ext ?cnf' (dataset, sub2))"
    by (simp add: validation_notebook_def snd_bind l2)
  moreover have "snd (validation_notebook ext pf cnf)
      = snd (validation_rest ext cnf (dataset, sub1))"
    by (simp add: validation_notebook_def snd_bind l1)
  ultimately show ?thesis using r by simp
qed

lemma demo_load_dataset: "snd (load_dataset demo_ext demo_paths) = Inr demo_loaded"
  by (simp add: load_dataset_def run_simps demo_ext_def demo_read_csv_def demo_paths_def
      path_join_def csv_args_def demo_dataset_def demo_loaded_def)

lemma demo_select_three:
  "snd (select_subset demo_ext demo_cnf demo_loaded)
     = Inr (demo_loaded\<lparr>rows := [rows demo_loaded ! 0, rows demo_loaded ! 2,
                                    rows demo_loaded ! 1]\<rparr>)"
  by code_simp

lemma demo_select_two:
  "snd (select_subset demo_ext (demo_cnf\<lparr>SEED := 2, TRAIN_SAMPLES := 1, TEST_SAMPLES := 1\<rparr>)
          demo_loaded)
     = Inr (demo_loaded\<lparr>rows := [rows demo_loaded ! 2, rows demo_loaded ! 1]\<rparr>)"
  by code_simp

text \<open>
  Seed 1 with 2 + 1 samples and seed 2 with 1 + 1 samples select different subsets of
  the three rows; the two runs print the same.
\<close>

theorem later_output_unchanged_witness:
  "snd (load_dataset demo_ext demo_paths) = Inr demo_loaded
   \<and> snd (select_subset demo_ext demo_cnf demo_loaded)
       = Inr (demo_loaded\<lparr>rows := [rows demo_loaded ! 0, rows demo_loaded ! 2,
                                      rows demo_loaded ! 1]\<rparr>)
   \<and> snd (select_subset demo_ext
            (demo_cnf\<lparr>SEED := 2, TRAIN_SAMPLES := 1, TEST_SAMPLES := 1\<rparr>) demo_loaded)
       = Inr (demo_loaded\<lparr>rows := [rows demo_loaded ! 2, rows demo_loaded ! 1]\<rparr>)
   \<and> console (fst (validation_notebook demo_ext demo_paths
                      (demo_cnf\<lparr>SEED := 2, TRAIN_SAMPLES := 1, TEST_SAMPLES := 1\<rparr>)))
       = console (fst (validation_notebook demo_ext demo_paths demo_cnf))
   \<and> snd (validation_notebook demo_ext demo_paths
             (demo_cnf\<lparr>SEED := 2, TRAIN_SAMPLES := 1, TEST_SAMPLES := 1\<rparr>))
       = snd (validation_notebook demo_ext demo_paths demo_cnf)"
  using later_output_unchanged [OF demo_load_dataset demo_select_three demo_select_two]
    demo_load_dataset demo_select_three demo_select_two
  by blast

section \<open>The CSV files read\<close>































end
